theory Spec2Isabelle
  imports Main "HOL-Library.Word" "HOL-Library.Char_ord" "HOL-Library.List_Lexorder"
begin

unbundle bit_operations_syntax

section \<open>osquery's \<open>sip_config\<close> table (osquery/tables/system/darwin/sip_config.cpp)\<close>

text \<open>
  The table reports the System Integrity Protection configuration of an OS X host: one
  aggregate row \<open>sip\<close> and one row per rootless configuration flag.  The file has two
  functions, \<open>genCsrConfigFromNvram\<close> (the value persisted in NVRAM, read through IOKit)
  and \<open>genSIPConfig\<close> (the table generator).  Both are embedded below statement by
  statement.  Everything they reach outside the file (the \<open>os_version\<close> table, the IOKit
  registry, the two weakly linked \<open>csr_*\<close> symbols) is an explicit argument, so a call
  is a pure function of the host it runs on.  The \<open>VLOG\<close> lines only log and are left out.
  The embedding is of the build in which \<open>DARWIN_10_9\<close> is not defined: with it defined the
  preprocessor removes the whole body after the version check.
\<close>

subsection \<open>Machine types\<close>

type_synonym byte = "8 word"
type_synonym uint32_t = "32 word"
type_synonym csr_config_t = uint32_t
type_synonym mach_port_t = nat
type_synonym kern_return_t = int

definition MACH_PORT_NULL :: mach_port_t where
  "MACH_PORT_NULL = 0"

definition KERN_SUCCESS :: kern_return_t where
  "KERN_SUCCESS = 0"

definition kIODeviceTreeChosenPath :: string where
  "kIODeviceTreeChosenPath = ''IODeviceTree:/options''"

subsection \<open>Collaborators declared in osquery's headers\<close>

text \<open>
  Modelled from the spec: \<open>Status\<close> (osquery/status.h) is not among the sources.  The
  reader surfaces its outcome "as a status to the caller"; the file builds it as
  \<open>Status(code, message)\<close> and asks it \<open>ok()\<close>, which holds for code 0.
\<close>

datatype Status = Status (getCode: int) (getMessage: string)

definition ok :: "Status \<Rightarrow> bool" where
  "ok s \<longleftrightarrow> getCode s = 0"

text \<open>
  Modelled from the spec: \<open>Row\<close> and \<open>QueryData\<close> (osquery/tables.h) are not among the
  sources.  A row is a flat record of string fields, a \<open>std::map\<close> from column name to
  text, and the query data is the sequence of rows in the order they were pushed.
\<close>

type_synonym Row = "string \<rightharpoonup> string"
type_synonym QueryData = "Row list"

text \<open>
  Modelled from the spec: the \<open>INTEGER\<close> macro (osquery/tables.h) is not among the sources.
  The produced records have integer fields with values 0/1 held as text, so \<open>INTEGER\<close>
  renders its argument in decimal; the file applies it to 0 and 1 only.
\<close>

function decimal_text :: "nat \<Rightarrow> string" where
  "decimal_text n =
     (if n < 10 then [char_of (48 + n)]
      else decimal_text (n div 10) @ [char_of (48 + n mod 10)])"
  by pat_completeness auto
termination
  by (relation "measure id") auto

declare decimal_text.simps [simp del]

definition INTEGER :: "int \<Rightarrow> string" where
  "INTEGER i = (if i < 0 then CHR ''-'' # decimal_text (nat (- i)) else decimal_text (nat i))"

subsection \<open>C++ exceptions and the standard library calls that raise them\<close>

datatype cxx_exception = out_of_range | invalid_argument

text \<open>\<open>std::map::at\<close>: the mapped value, or \<open>std::out_of_range\<close> for a missing key.\<close>

definition at :: "Row \<Rightarrow> string \<Rightarrow> cxx_exception + string" where
  "at r k = (case r k of None \<Rightarrow> Inl out_of_range | Some v \<Rightarrow> Inr v)"

text \<open>
  \<open>std::stoi(str)\<close> with its default base 10, as the C++ standard defines it through
  \<open>strtol\<close>: leading white space is skipped, one sign is optional, then the longest run
  of decimal digits is read and whatever follows is ignored.  No digit at all is
  \<open>std::invalid_argument\<close>; a value that does not fit \<open>int\<close> is \<open>std::out_of_range\<close>.
\<close>

definition isspace :: "char \<Rightarrow> bool" where
  "isspace c \<longleftrightarrow> of_char c \<in> {32, 9, 10, 11, 12, 13 :: nat}"

definition isdigit :: "char \<Rightarrow> bool" where
  "isdigit c \<longleftrightarrow> 48 \<le> (of_char c :: nat) \<and> (of_char c :: nat) \<le> 57"

definition decimal :: "string \<Rightarrow> int" where
  "decimal ds = foldl (\<lambda>acc c. 10 * acc + (of_char c - 48)) 0 ds"

definition INT_MAX :: int where
  "INT_MAX = 2147483647"

definition INT_MIN :: int where
  "INT_MIN = - 2147483648"

definition stoi :: "string \<Rightarrow> cxx_exception + int" where
  "stoi str =
     (let s = dropWhile isspace str;
          neg = (s \<noteq> [] \<and> hd s = CHR ''-'');
          t = (if s \<noteq> [] \<and> (hd s = CHR ''-'' \<or> hd s = CHR ''+'') then tl s else s);
          ds = takeWhile isdigit t;
          v = (if neg then - decimal ds else decimal ds)
      in if ds = [] then Inl invalid_argument
         else if v < INT_MIN \<or> INT_MAX < v then Inl out_of_range
         else Inr v)"

subsection \<open>The rootless configuration flags\<close>

text \<open>
  \<open>kRootlessConfigFlags\<close> is a \<open>std::map<std::string, uint32_t>\<close> built from eight
  initialisers \<open>{name, (1 << k)}\<close>.  A \<open>std::map\<close> is iterated in the order of its keys,
  so the two range-for loops of \<open>genSIPConfig\<close> see the entries sorted by name, not in
  the order they are written in.
\<close>

definition kRootlessConfigFlags_initializer :: "(string \<times> uint32_t) list" where
  "kRootlessConfigFlags_initializer =
     [(''allow_untrusted_kexts'', push_bit 0 1),
      (''allow_unrestricted_fs'', push_bit 1 1),
      (''allow_task_for_pid'', push_bit 2 1),
      (''allow_kernel_debugger'', push_bit 3 1),
      (''allow_apple_internal'', push_bit 4 1),
      (''allow_unrestricted_dtrace'', push_bit 5 1),
      (''allow_unrestricted_nvram'', push_bit 6 1),
      (''allow_device_configuration'', push_bit 7 1)]"

definition kRootlessConfigFlags :: "(string \<times> uint32_t) list" where
  "kRootlessConfigFlags = sort_key fst kRootlessConfigFlags_initializer"

subsection \<open>IOKit and Core Foundation, as far as the reader uses them\<close>

text \<open>
  A Core Foundation value carries its type; \<open>CFGetTypeID(v) != CFDataGetTypeID()\<close> holds
  exactly for the values that are not \<open>CFData\<close>.  A \<open>CFData\<close> is a byte buffer of any
  length.  A property dictionary maps a key to at most one value.
\<close>

datatype CFType =
  is_CFData: CFData "byte list" | CFString string | CFNumber int | CFBoolean bool

type_synonym CFDictionary = "string \<rightharpoonup> CFType"

text \<open>
  The registry of the host: \<open>IORegistryEntryFromPath\<close> answers a path with a port
  (\<open>MACH_PORT_NULL\<close> when there is no such entry), and
  \<open>IORegistryEntryCreateCFProperties\<close> answers an entry with its return code and with
  what it leaves in \<open>properties\<close> (\<open>None\<close> is the \<open>nullptr\<close> the variable starts as).
\<close>

record iokit =
  IORegistryEntryFromPath :: "string \<Rightarrow> mach_port_t"
  IORegistryEntryCreateCFProperties :: "mach_port_t \<Rightarrow> kern_return_t \<times> CFDictionary option"

text \<open>
  The two OS objects the reader owns while it runs: the registry entry it opened and the
  dictionary that \<open>IORegistryEntryCreateCFProperties\<close> created for it.  \<open>acquire\<close> and
  \<open>release\<close> keep the list of the objects that are held.
\<close>

datatype os_handle = RegistryEntry mach_port_t | PropertyDictionary

definition acquire :: "os_handle \<Rightarrow> os_handle list \<Rightarrow> os_handle list" where
  "acquire h held = h # held"

definition release :: "os_handle \<Rightarrow> os_handle list \<Rightarrow> os_handle list" where
  "release h held = remove1 h held"

text \<open>
  \<open>CFDataGetBytes(data, CFRangeMake(0, n), buffer)\<close> stores the first \<open>n\<close> bytes of the
  data at \<open>buffer[0]\<close>, \<open>buffer[1]\<close>, ...; it knows nothing of the size of the array it
  is given.  The result is the array after the call and the bytes that were stored past
  its end.
\<close>

definition CFDataGetBytes :: "byte list \<Rightarrow> nat \<Rightarrow> byte list \<Rightarrow> byte list \<times> byte list" where
  "CFDataGetBytes data n buffer =
     (let src = take n data
      in (take (length buffer) src @ drop (length src) buffer, drop (length buffer) src))"

text \<open>
  \<open>memcpy(&config, buffer, sizeof(uint32_t))\<close> on the little-endian hosts OS X runs on:
  \<open>buffer[0]\<close> is the least significant byte.
\<close>

definition memcpy_uint32 :: "byte list \<Rightarrow> uint32_t" where
  "memcpy_uint32 buffer = foldr (\<lambda>b w. ucast b OR push_bit 8 w) (take 4 buffer) 0"

subsection \<open>\<open>genCsrConfigFromNvram\<close>\<close>

text \<open>
  What a call leaves behind: the status it returns, the value of the reference argument
  \<open>config\<close>, the OS objects still held at the return, and the bytes written past the end
  of the local \<open>buffer\<close>.  C gives no meaning to an execution that writes outside an
  array; the embedding follows the statements as written and reports the stray bytes, so
  that \<open>overrun = []\<close> says the call stayed inside \<open>buffer\<close>.
\<close>

record nvram_read =
  status :: Status
  config :: uint32_t
  held :: "os_handle list"
  overrun :: "byte list"

definition genCsrConfigFromNvram :: "iokit \<Rightarrow> uint32_t \<Rightarrow> nvram_read" where
  "genCsrConfigFromNvram io config0 =
     (let chosen = IORegistryEntryFromPath io kIODeviceTreeChosenPath
      in if chosen = MACH_PORT_NULL then
           \<lparr>status = Status 1 ''Could not open IOKit DeviceTree'',
            config = config0, held = [], overrun = []\<rparr>
         else
           let h0 = acquire (RegistryEntry chosen) [];
               (kr, properties) = IORegistryEntryCreateCFProperties io chosen;
               h1 = (case properties of None \<Rightarrow> h0 | Some _ \<Rightarrow> acquire PropertyDictionary h0);
               h2 = release (RegistryEntry chosen) h1
           in if kr \<noteq> KERN_SUCCESS then
                \<lparr>status = Status 1 ''Could not get IOKit options'',
                 config = config0, held = h2, overrun = []\<rparr>
              else
                case properties of
                  None \<Rightarrow>
                    \<lparr>status = Status 1 ''Could not load IOKit properties'',
                     config = config0, held = h2, overrun = []\<rparr>
                | Some dict \<Rightarrow>
                    (case dict ''csr-active-config'' of
                       Some csr_config \<Rightarrow>
                         (case csr_config of
                            CFData bytes \<Rightarrow>
                              let (buffer, stray) = CFDataGetBytes bytes (length bytes) [0, 0, 0, 0];
                                  h3 = release PropertyDictionary h2
                              in \<lparr>status = Status 0 ''ok'',
                                  config = memcpy_uint32 buffer, held = h3, overrun = stray\<rparr>
                          | _ \<Rightarrow>
                              \<lparr>status = Status 1 ''Unexpected data type for csr-active-config'',
                               config = config0, held = h2, overrun = []\<rparr>)
                     | None \<Rightarrow>
                         \<lparr>status = Status 0 ''csr-active-config key not found'',
                          config = config0, held = h2, overrun = []\<rparr>))"

subsection \<open>\<open>genSIPConfig\<close>\<close>

text \<open>
  The host a query runs on: the rows of \<open>SQL::selectAllFrom("os_version")\<close>, the two
  weakly imported symbols (\<open>None\<close> is a symbol the loader left \<open>nullptr\<close>), and the
  registry.  \<open>csr_get_active_config\<close> is handed the address of \<open>config\<close>: the function
  here takes the value found there to the value left there (its \<open>int\<close> result is
  dropped by the caller).  \<open>csr_check\<close> takes a mask to its \<open>int\<close> result.
\<close>

record host =
  os_version :: "Row list"
  csr_get_active_config :: "(csr_config_t \<Rightarrow> csr_config_t) option"
  csr_check :: "(csr_config_t \<Rightarrow> int) option"
  registry :: iokit

text \<open>
  Lines 96 to 107, the two early returns: \<open>Inr False\<close> is a \<open>return {}\<close>, \<open>Inr True\<close>
  falls through to the body, \<open>Inl e\<close> is an exception leaving the function.  The
  \<open>&&\<close> evaluates \<open>std::stoi\<close> only after the major field compared equal to \<open>"10"\<close>.
\<close>

definition version_gate :: "Row list \<Rightarrow> cxx_exception + bool" where
  "version_gate rows =
     (case rows of
        [front] \<Rightarrow>
          (case at front ''major'' of
             Inl e \<Rightarrow> Inl e
           | Inr major \<Rightarrow>
               if major = ''10'' then
                 (case at front ''minor'' of
                    Inl e \<Rightarrow> Inl e
                  | Inr minor \<Rightarrow>
                      (case stoi minor of
                         Inl e \<Rightarrow> Inl e
                       | Inr n \<Rightarrow> if n < 11 then Inr False else Inr True))
               else Inr True)
      | _ \<Rightarrow> Inr False)"

text \<open>Lines 120 to 123: the union of the bits of all flags.\<close>

definition valid_allowed_flags :: csr_config_t where
  "valid_allowed_flags = foldl (\<lambda>acc kv. acc OR snd kv) 0 kRootlessConfigFlags"

text \<open>
  Lines 125 to 136: the aggregate row.  The row starts empty and gets \<open>enabled\<close> and
  \<open>enabled_nvram\<close> in two of the three cases only.
\<close>

definition sip_row :: "csr_config_t \<Rightarrow> Row" where
  "sip_row cfg =
     (let r = Map.empty(''config_flag'' \<mapsto> ''sip'')
      in if cfg = 0 then r(''enabled'' \<mapsto> INTEGER 1, ''enabled_nvram'' \<mapsto> INTEGER 1)
         else if cfg OR valid_allowed_flags = valid_allowed_flags
         then r(''enabled'' \<mapsto> INTEGER 0, ''enabled_nvram'' \<mapsto> INTEGER 0)
         else r)"

text \<open>
  Lines 142 to 147, the body of the loop over the flags, for the entry \<open>kv\<close>: the row
  \<open>r\<close> is the one variable of the function, assigned into again for every flag, so the
  body starts from the row as the iteration before left it.  \<open>csr_check\<close> returns zero
  if the flag is allowed; \<open>enabled_nvram\<close> is assigned only under \<open>nvram_status.ok()\<close>.
\<close>

definition flag_row ::
  "(csr_config_t \<Rightarrow> int) \<Rightarrow> Status \<Rightarrow> uint32_t \<Rightarrow> string \<times> uint32_t \<Rightarrow> Row \<Rightarrow> Row" where
  "flag_row check nvram_status nvram_config kv r =
     (let r1 = r(''config_flag'' \<mapsto> fst kv);
          r2 = r1(''enabled'' \<mapsto> (if check (snd kv) = 0 then INTEGER 1 else INTEGER 0))
      in if ok nvram_status
         then r2(''enabled_nvram'' \<mapsto>
                   (if nvram_config AND snd kv \<noteq> 0 then INTEGER 1 else INTEGER 0))
         else r2)"

text \<open>Lines 141 to 149, the loop: each row is pushed and handed on to the next flag.\<close>

fun flag_rows ::
  "(csr_config_t \<Rightarrow> int) \<Rightarrow> Status \<Rightarrow> uint32_t \<Rightarrow> (string \<times> uint32_t) list \<Rightarrow>
   Row \<Rightarrow> QueryData \<Rightarrow> QueryData" where
  "flag_rows check nvram_status nvram_config [] r results = results"
| "flag_rows check nvram_status nvram_config (kv # kvs) r results =
     (let r' = flag_row check nvram_status nvram_config kv r
      in flag_rows check nvram_status nvram_config kvs r' (results @ [r']))"

definition genSIPConfig :: "host \<Rightarrow> cxx_exception + QueryData" where
  "genSIPConfig h =
     (case version_gate (os_version h) of
        Inl e \<Rightarrow> Inl e
      | Inr False \<Rightarrow> Inr []
      | Inr True \<Rightarrow>
          (case (csr_get_active_config h, csr_check h) of
             (Some get_active_config, Some check) \<Rightarrow>
               let cfg = get_active_config 0;
                   r = sip_row cfg;
                   results = [r];
                   nv = genCsrConfigFromNvram (registry h) 0
               in Inr (flag_rows check (status nv) (config nv) kRootlessConfigFlags r results)
           | _ \<Rightarrow> Inr []))"

subsection \<open>Reading a column of the result\<close>

definition column :: "string \<Rightarrow> QueryData \<Rightarrow> string option list" where
  "column k rows = map (\<lambda>r. r k) rows"

subsection \<open>Concrete hosts\<close>

text \<open>
  A registry whose \<open>IODeviceTree:/options\<close> entry opens (as port 7) and yields the given
  dictionary, and one in which the entry does not exist.
\<close>

definition options_registry :: "CFDictionary \<Rightarrow> iokit" where
  "options_registry dict =
     \<lparr>IORegistryEntryFromPath = (\<lambda>path. if path = ''IODeviceTree:/options'' then 7 else 0),
      IORegistryEntryCreateCFProperties = (\<lambda>entry. (0, Some dict))\<rparr>"

definition no_options_registry :: iokit where
  "no_options_registry =
     \<lparr>IORegistryEntryFromPath = (\<lambda>path. 0),
      IORegistryEntryCreateCFProperties = (\<lambda>entry. (5, None))\<rparr>"

text \<open>
  A host of the given version on which both \<open>csr_*\<close> symbols are bound: the active
  configuration is \<open>cfg\<close>, and \<open>csr_check\<close> allows exactly the masks inside it.
\<close>

definition mac :: "string \<Rightarrow> string \<Rightarrow> csr_config_t \<Rightarrow> iokit \<Rightarrow> host" where
  "mac major minor cfg io =
     \<lparr>os_version = [[''major'' \<mapsto> major, ''minor'' \<mapsto> minor]],
      csr_get_active_config = Some (\<lambda>old. cfg),
      csr_check = Some (\<lambda>mask. if cfg AND mask = mask then 0 else 1),
      registry = io\<rparr>"

section \<open>Facts about the embedding\<close>

subsection \<open>The flag table and the rendered integers\<close>

text \<open>The entries in the order the loops visit them, with the shifts computed.\<close>

lemma kRootlessConfigFlags_sorted:
  "kRootlessConfigFlags =
     [(''allow_apple_internal'', 16), (''allow_device_configuration'', 128),
      (''allow_kernel_debugger'', 8), (''allow_task_for_pid'', 4),
      (''allow_unrestricted_dtrace'', 32), (''allow_unrestricted_fs'', 2),
      (''allow_unrestricted_nvram'', 64), (''allow_untrusted_kexts'', 1)]"
  by code_simp

lemma length_kRootlessConfigFlags: "length kRootlessConfigFlags = 8"
  by (simp add: kRootlessConfigFlags_sorted)

lemma valid_allowed_flags_255: "valid_allowed_flags = 255"
  by (simp add: valid_allowed_flags_def kRootlessConfigFlags_sorted)

lemma INTEGER_0: "INTEGER 0 = ''0''"
  by code_simp

lemma INTEGER_1: "INTEGER 1 = ''1''"
  by code_simp

lemmas stoi_eval = stoi_def isspace_def isdigit_def decimal_def INT_MAX_def INT_MIN_def

subsection \<open>The loop over the flags\<close>

text \<open>
  Every pass assigns \<open>config_flag\<close> and \<open>enabled\<close>, and \<open>enabled_nvram\<close> under the same
  condition as every other pass, so the row of a flag is the body applied to the
  aggregate row: what a pass leaves of the pass before it is overwritten.  What the
  aggregate row holds in a column the body does not assign stays in every row.
\<close>

lemma flag_row_flag_row:
  "flag_row c st nv kv' (flag_row c st nv kv r) = flag_row c st nv kv' r"
  by (auto simp: flag_row_def Let_def fun_eq_iff)

lemma flag_rows_map:
  "flag_rows c st nv kvs r results = results @ map (\<lambda>kv. flag_row c st nv kv r) kvs"
  by (induction kvs arbitrary: r results) (simp_all add: Let_def flag_row_flag_row)

lemma flag_row_config_flag: "flag_row c st nv kv r ''config_flag'' = Some (fst kv)"
  by (simp add: flag_row_def Let_def)

lemma flag_row_enabled:
  "flag_row c st nv kv r ''enabled'' = Some (if c (snd kv) = 0 then INTEGER 1 else INTEGER 0)"
  by (simp add: flag_row_def Let_def)

lemma flag_row_enabled_nvram:
  "flag_row c st nv kv r ''enabled_nvram'' =
     (if ok st then Some (if nv AND snd kv \<noteq> 0 then INTEGER 1 else INTEGER 0)
      else r ''enabled_nvram'')"
  by (simp add: flag_row_def Let_def)

lemma sip_row_config_flag: "sip_row cfg ''config_flag'' = Some ''sip''"
  by (simp add: sip_row_def Let_def)

lemma sip_row_enabled:
  "sip_row cfg ''enabled'' =
     (if cfg = 0 then Some ''1''
      else if cfg OR valid_allowed_flags = valid_allowed_flags then Some ''0'' else None)"
  by (simp add: sip_row_def Let_def INTEGER_0 INTEGER_1)

lemma sip_row_enabled_nvram:
  "sip_row cfg ''enabled_nvram'' =
     (if cfg = 0 then Some ''1''
      else if cfg OR valid_allowed_flags = valid_allowed_flags then Some ''0'' else None)"
  by (simp add: sip_row_def Let_def INTEGER_0 INTEGER_1)

subsection \<open>The shape of the result\<close>

lemma version_gate_True_iff:
  "version_gate rows = Inr True \<longleftrightarrow>
     (\<exists>r major. rows = [r] \<and> r ''major'' = Some major \<and>
        (major \<noteq> ''10'' \<or>
         (\<exists>minor n. r ''minor'' = Some minor \<and> stoi minor = Inr n \<and> 11 \<le> n)))"
  by (auto simp: version_gate_def at_def split: list.splits option.splits sum.splits)

lemma genSIPConfig_body:
  assumes "version_gate (os_version h) = Inr True"
    and "csr_get_active_config h = Some g" and "csr_check h = Some c"
  shows "genSIPConfig h =
           Inr (sip_row (g 0) #
                map (\<lambda>kv. flag_row c (status (genCsrConfigFromNvram (registry h) 0))
                             (config (genCsrConfigFromNvram (registry h) 0)) kv (sip_row (g 0)))
                  kRootlessConfigFlags)"
  using assms by (simp add: genSIPConfig_def Let_def flag_rows_map)

lemma genSIPConfig_rows_cases:
  assumes "genSIPConfig h = Inr rows" and "rows \<noteq> []"
  shows "\<exists>g c. version_gate (os_version h) = Inr True \<and>
           csr_get_active_config h = Some g \<and> csr_check h = Some c"
  using assms by (auto simp: genSIPConfig_def split: sum.splits bool.splits option.splits)

subsection \<open>The concrete hosts\<close>

lemma mac_gate_10_11: "version_gate (os_version (mac ''10'' ''11'' cfg io)) = Inr True"
  by (simp add: mac_def version_gate_def at_def stoi_eval)

lemma mac_gate_11_0: "version_gate (os_version (mac ''11'' ''0'' cfg io)) = Inr True"
  by (simp add: mac_def version_gate_def at_def)

lemma genSIPConfig_mac:
  assumes "version_gate (os_version (mac major minor cfg io)) = Inr True"
  shows "genSIPConfig (mac major minor cfg io) =
     Inr (sip_row cfg #
          map (\<lambda>kv. flag_row (\<lambda>mask. if cfg AND mask = mask then 0 else 1)
                       (status (genCsrConfigFromNvram io 0))
                       (config (genCsrConfigFromNvram io 0)) kv (sip_row cfg))
            kRootlessConfigFlags)"
  using genSIPConfig_body [OF assms, of "\<lambda>old. cfg" "\<lambda>mask. if cfg AND mask = mask then 0 else 1"]
  by (simp add: mac_def)

lemma nvram_no_options:
  "genCsrConfigFromNvram no_options_registry c0 =
     \<lparr>status = Status 1 ''Could not open IOKit DeviceTree'', config = c0, held = [], overrun = []\<rparr>"
  by (simp add: genCsrConfigFromNvram_def no_options_registry_def MACH_PORT_NULL_def)

lemma nvram_options:
  "genCsrConfigFromNvram (options_registry dict) c0 =
     (case dict ''csr-active-config'' of
        None \<Rightarrow> \<lparr>status = Status 0 ''csr-active-config key not found'', config = c0,
                 held = [PropertyDictionary], overrun = []\<rparr>
      | Some (CFData bytes) \<Rightarrow>
          \<lparr>status = Status 0 ''ok'',
           config = memcpy_uint32 (fst (CFDataGetBytes bytes (length bytes) [0, 0, 0, 0])),
           held = [], overrun = snd (CFDataGetBytes bytes (length bytes) [0, 0, 0, 0])\<rparr>
      | Some _ \<Rightarrow> \<lparr>status = Status 1 ''Unexpected data type for csr-active-config'', config = c0,
                 held = [PropertyDictionary], overrun = []\<rparr>)"
  by (simp add: genCsrConfigFromNvram_def options_registry_def MACH_PORT_NULL_def KERN_SUCCESS_def
      kIODeviceTreeChosenPath_def acquire_def release_def Let_def
      split: option.splits CFType.splits prod.splits)

section \<open>The version gate\<close>

text \<open>
  C1, as stated: with exactly one \<open>os_version\<close> record, observations are emitted only
  when major is 10 and minor is at least 11, and every other combination, major versions
  other than "10" included, yields zero observations.  The condition of line 103 is
  \<open>major == "10" && stoi(minor) < 11\<close>, so a record whose major is not "10" is never
  turned away: on version 11.0 with both symbols bound the table has its nine rows.
\<close>

theorem genSIPConfig_major_11_counterexample:
  "os_version (mac ''11'' ''0'' 0 no_options_registry) =
     [[''major'' \<mapsto> ''11'', ''minor'' \<mapsto> ''0'']] \<and>
   map_sum id length (genSIPConfig (mac ''11'' ''0'' 0 no_options_registry)) = Inr 9"
proof -
  have "map_sum id length (genSIPConfig (mac ''11'' ''0'' 0 no_options_registry)) = Inr 9"
    by (simp add: genSIPConfig_mac [OF mac_gate_11_0] length_kRootlessConfigFlags)
  then show ?thesis
    by (simp add: mac_def)
qed

text \<open>
  C1, amended: with exactly one \<open>os_version\<close> record that has a major field, and, when
  that field is "10", a minor field that \<open>std::stoi\<close> reads as the integer \<open>n\<close>,
  \<open>genSIPConfig\<close> returns, and it returns at least one observation exactly when the
  record is not a 10.x with \<open>n < 11\<close> (major is not "10", or \<open>n\<close> is at least 11) and
  both \<open>csr_get_active_config\<close> and \<open>csr_check\<close> are bound.
\<close>

theorem genSIPConfig_version_gate:
  assumes "os_version h = [r]" and "r ''major'' = Some major"
    and "major = ''10'' \<longrightarrow> r ''minor'' = Some minor \<and> stoi minor = Inr n"
  shows "\<exists>rows. genSIPConfig h = Inr rows \<and>
           (rows \<noteq> [] \<longleftrightarrow>
              (major \<noteq> ''10'' \<or> 11 \<le> n) \<and>
              csr_get_active_config h \<noteq> None \<and> csr_check h \<noteq> None)"
  using assms
  by (auto simp: genSIPConfig_def version_gate_def at_def Let_def flag_rows_map
      split: option.splits)

text \<open>The amended statement at OS X 10.10, which is denied, and at 10.11, which is not.\<close>

theorem genSIPConfig_version_gate_witness:
  "genSIPConfig (mac ''10'' ''10'' 0 no_options_registry) = Inr [] \<and>
   stoi ''10'' = Inr 10 \<and>
   projr (genSIPConfig (mac ''10'' ''11'' 0 no_options_registry)) \<noteq> [] \<and>
   stoi ''11'' = Inr 11"
proof -
  have s10: "stoi ''10'' = Inr 10" and s11: "stoi ''11'' = Inr 11"
    by (simp_all add: stoi_eval)
  have "\<exists>rows. genSIPConfig (mac ''10'' ''10'' 0 no_options_registry) = Inr rows \<and>
          (rows \<noteq> [] \<longleftrightarrow> (''10'' \<noteq> ''10'' \<or> (11::int) \<le> 10) \<and>
             csr_get_active_config (mac ''10'' ''10'' 0 no_options_registry) \<noteq> None \<and>
             csr_check (mac ''10'' ''10'' 0 no_options_registry) \<noteq> None)"
    by (rule genSIPConfig_version_gate [where r = "[''major'' \<mapsto> ''10'', ''minor'' \<mapsto> ''10'']"
          and minor = "''10''"])
      (simp_all add: mac_def s10)
  then have a: "genSIPConfig (mac ''10'' ''10'' 0 no_options_registry) = Inr []"
    by auto
  have "\<exists>rows. genSIPConfig (mac ''10'' ''11'' 0 no_options_registry) = Inr rows \<and>
          (rows \<noteq> [] \<longleftrightarrow> (''10'' \<noteq> ''10'' \<or> (11::int) \<le> 11) \<and>
             csr_get_active_config (mac ''10'' ''11'' 0 no_options_registry) \<noteq> None \<and>
             csr_check (mac ''10'' ''11'' 0 no_options_registry) \<noteq> None)"
    by (rule genSIPConfig_version_gate [where r = "[''major'' \<mapsto> ''10'', ''minor'' \<mapsto> ''11'']"
          and minor = "''11''"])
      (simp_all add: mac_def s11)
  then have b: "projr (genSIPConfig (mac ''10'' ''11'' 0 no_options_registry)) \<noteq> []"
    by (auto simp: mac_def)
  from a b s10 s11 show ?thesis
    by simp
qed

text \<open>
  C9: the gate is not total.  With exactly one record whose major is "10", a minor field
  that \<open>std::stoi\<close> rejects makes \<open>genSIPConfig\<close> leave with that very exception, not
  with zero observations; when \<open>std::stoi\<close> accepts the field the call returns query
  data.  The witness shows both exceptions of \<open>std::stoi\<close>: no digits, and too large.
\<close>

theorem genSIPConfig_stoi_throws:
  assumes "os_version h = [r]" and "r ''major'' = Some ''10''" and "r ''minor'' = Some minor"
  shows "(case stoi minor of
            Inl e \<Rightarrow> genSIPConfig h = Inl e
          | Inr n \<Rightarrow> \<exists>rows. genSIPConfig h = Inr rows)"
  using assms
  by (auto simp: genSIPConfig_def version_gate_def at_def Let_def
      split: sum.splits option.splits bool.splits)

theorem genSIPConfig_stoi_throws_witness:
  "stoi ''eleven'' = Inl invalid_argument \<and>
   genSIPConfig (mac ''10'' ''eleven'' 0 no_options_registry) = Inl invalid_argument \<and>
   stoi ''99999999999'' = Inl out_of_range \<and>
   genSIPConfig (mac ''10'' ''99999999999'' 0 no_options_registry) = Inl out_of_range"
proof -
  have s: "stoi ''eleven'' = Inl invalid_argument" "stoi ''99999999999'' = Inl out_of_range"
    by (simp_all add: stoi_eval)
  from genSIPConfig_stoi_throws [of "mac ''10'' ''eleven'' 0 no_options_registry"
      "[''major'' \<mapsto> ''10'', ''minor'' \<mapsto> ''eleven'']" "''eleven''"]
    genSIPConfig_stoi_throws [of "mac ''10'' ''99999999999'' 0 no_options_registry"
      "[''major'' \<mapsto> ''10'', ''minor'' \<mapsto> ''99999999999'']" "''99999999999''"]
  show ?thesis
    by (simp add: s mac_def)
qed

section \<open>The live symbols and the aggregate row\<close>

text \<open>
  C5: when the version gate lets the call through and \<open>csr_get_active_config\<close> or
  \<open>csr_check\<close> is unbound, \<open>genSIPConfig\<close> returns zero observations, whatever the
  registry holds.  In the witness the persisted value is there and readable.
\<close>

theorem genSIPConfig_unbound:
  assumes "version_gate (os_version h) = Inr True"
    and "csr_get_active_config h = None \<or> csr_check h = None"
  shows "genSIPConfig h = Inr []"
  using assms by (auto simp: genSIPConfig_def split: option.splits)

theorem genSIPConfig_unbound_witness:
  "version_gate (os_version (mac ''10'' ''11'' 0
      (options_registry [''csr-active-config'' \<mapsto> CFData [0x77, 0, 0, 0]])
      \<lparr>csr_check := None\<rparr>)) = Inr True \<and>
   ok (status (genCsrConfigFromNvram
      (options_registry [''csr-active-config'' \<mapsto> CFData [0x77, 0, 0, 0]]) 0)) \<and>
   genSIPConfig (mac ''10'' ''11'' 0
      (options_registry [''csr-active-config'' \<mapsto> CFData [0x77, 0, 0, 0]])
      \<lparr>csr_check := None\<rparr>) = Inr []"
proof -
  let ?h = "mac ''10'' ''11'' 0
      (options_registry [''csr-active-config'' \<mapsto> CFData [0x77, 0, 0, 0]]) \<lparr>csr_check := None\<rparr>"
  have gate: "version_gate (os_version ?h) = Inr True"
    using mac_gate_10_11 by (simp add: mac_def)
  have "csr_get_active_config ?h = None \<or> csr_check ?h = None"
    by simp
  from genSIPConfig_unbound [OF gate this] gate show ?thesis
    by (simp add: nvram_options ok_def)
qed

text \<open>
  C4: whenever \<open>genSIPConfig\<close> emits observations, \<open>csr_get_active_config\<close> is bound,
  and with \<open>active_config\<close> the value it stores into the zeroed \<open>config\<close>: if
  \<open>active_config\<close> is 0 the first observation has \<open>enabled = 1\<close> and
  \<open>enabled_nvram = 1\<close>; otherwise, if \<open>active_config | valid_allowed_flags\<close> equals
  \<open>valid_allowed_flags\<close>, it has \<open>enabled = 0\<close> and \<open>enabled_nvram = 0\<close>.
\<close>

theorem genSIPConfig_aggregate:
  assumes "genSIPConfig h = Inr rows" and "rows \<noteq> []"
  shows "\<exists>g. csr_get_active_config h = Some g \<and>
           (g 0 = 0 \<longrightarrow>
              hd rows ''enabled'' = Some ''1'' \<and> hd rows ''enabled_nvram'' = Some ''1'') \<and>
           (g 0 \<noteq> 0 \<and> g 0 OR valid_allowed_flags = valid_allowed_flags \<longrightarrow>
              hd rows ''enabled'' = Some ''0'' \<and> hd rows ''enabled_nvram'' = Some ''0'')"
proof -
  from genSIPConfig_rows_cases [OF assms] obtain g c where
    gate: "version_gate (os_version h) = Inr True" and
    g: "csr_get_active_config h = Some g" and c: "csr_check h = Some c"
    by blast
  from genSIPConfig_body [OF gate g c] assms(1) have "hd rows = sip_row (g 0)"
    by auto
  with g show ?thesis
    by (simp add: sip_row_enabled sip_row_enabled_nvram)
qed

text \<open>
  The two cases on OS X 10.11: no bit set, and the bit of \<open>allow_untrusted_kexts\<close> alone.
\<close>

theorem genSIPConfig_aggregate_witness:
  "column ''enabled''
     (take 1 (projr (genSIPConfig (mac ''10'' ''11'' 0 no_options_registry)))) = [Some ''1''] \<and>
   column ''enabled_nvram''
     (take 1 (projr (genSIPConfig (mac ''10'' ''11'' 0 no_options_registry)))) = [Some ''1''] \<and>
   column ''enabled''
     (take 1 (projr (genSIPConfig (mac ''10'' ''11'' 1 no_options_registry)))) = [Some ''0''] \<and>
   column ''enabled_nvram''
     (take 1 (projr (genSIPConfig (mac ''10'' ''11'' 1 no_options_registry)))) = [Some ''0'']"
proof -
  have rows: "genSIPConfig (mac ''10'' ''11'' cfg no_options_registry) =
                Inr (projr (genSIPConfig (mac ''10'' ''11'' cfg no_options_registry)))"
    and ne: "projr (genSIPConfig (mac ''10'' ''11'' cfg no_options_registry)) \<noteq> []" for cfg
    by (simp_all add: genSIPConfig_mac [OF mac_gate_10_11])
  have g: "csr_get_active_config (mac ''10'' ''11'' cfg no_options_registry) = Some (\<lambda>old. cfg)"
    for cfg
    by (simp add: mac_def)
  from genSIPConfig_aggregate [OF rows ne, of 0] genSIPConfig_aggregate [OF rows ne, of 1]
  show ?thesis
    using ne [of 0] ne [of 1]
    by (auto simp: g valid_allowed_flags_255 column_def take_Suc neq_Nil_conv)
qed

text \<open>
  C10: when the gate lets the call through, both symbols are bound, and
  \<open>active_config\<close> is not 0 and has a bit outside \<open>valid_allowed_flags\<close>, nine
  observations are returned.  The first has \<open>config_flag = sip\<close> and neither an
  \<open>enabled\<close> nor an \<open>enabled_nvram\<close> field.  The eight after it are the observations
  of the flags, in the order of the table: each has the name of its flag, \<open>enabled\<close> is 1
  exactly when \<open>csr_check\<close> returns zero for the bit of the flag, and \<open>enabled_nvram\<close>
  is the bit of the flag in the persisted value when the read succeeded and is missing
  when it failed.
\<close>

theorem genSIPConfig_unknown_bits:
  assumes "version_gate (os_version h) = Inr True"
    and "csr_get_active_config h = Some g" and "csr_check h = Some c"
    and "g 0 \<noteq> 0" and "g 0 OR valid_allowed_flags \<noteq> valid_allowed_flags"
  shows "\<exists>rows. genSIPConfig h = Inr rows \<and> length rows = 9 \<and>
           hd rows ''config_flag'' = Some ''sip'' \<and>
           hd rows ''enabled'' = None \<and> hd rows ''enabled_nvram'' = None \<and>
           column ''config_flag'' (tl rows) = map (\<lambda>kv. Some (fst kv)) kRootlessConfigFlags \<and>
           column ''enabled'' (tl rows) =
             map (\<lambda>kv. Some (if c (snd kv) = 0 then ''1'' else ''0'')) kRootlessConfigFlags \<and>
           column ''enabled_nvram'' (tl rows) =
             map (\<lambda>kv. if ok (status (genCsrConfigFromNvram (registry h) 0))
                        then Some (if config (genCsrConfigFromNvram (registry h) 0) AND snd kv \<noteq> 0
                                   then ''1'' else ''0'')
                        else None) kRootlessConfigFlags"
  using assms(4,5)
  by (simp add: genSIPConfig_body [OF assms(1-3)] length_kRootlessConfigFlags
      sip_row_config_flag sip_row_enabled sip_row_enabled_nvram column_def flag_row_config_flag
      flag_row_enabled flag_row_enabled_nvram INTEGER_0 INTEGER_1 comp_def if_distrib [of Some]
      cong: if_cong)

text \<open>
  An active configuration of \<open>0x101\<close>, the bit of \<open>allow_untrusted_kexts\<close> and a bit
  that no flag of the table has, with \<open>allow_apple_internal\<close> alone persisted.
\<close>

theorem genSIPConfig_unknown_bits_witness:
  "(257 :: csr_config_t) OR valid_allowed_flags \<noteq> valid_allowed_flags \<and>
   map_sum id (column ''config_flag'')
     (genSIPConfig (mac ''10'' ''11'' 257
        (options_registry [''csr-active-config'' \<mapsto> CFData [0x10, 0, 0, 0]]))) =
     Inr [Some ''sip'', Some ''allow_apple_internal'', Some ''allow_device_configuration'',
          Some ''allow_kernel_debugger'', Some ''allow_task_for_pid'',
          Some ''allow_unrestricted_dtrace'', Some ''allow_unrestricted_fs'',
          Some ''allow_unrestricted_nvram'', Some ''allow_untrusted_kexts''] \<and>
   map_sum id (column ''enabled'')
     (genSIPConfig (mac ''10'' ''11'' 257
        (options_registry [''csr-active-config'' \<mapsto> CFData [0x10, 0, 0, 0]]))) =
     Inr [None, Some ''0'', Some ''0'', Some ''0'', Some ''0'', Some ''0'', Some ''0'',
          Some ''0'', Some ''1''] \<and>
   map_sum id (column ''enabled_nvram'')
     (genSIPConfig (mac ''10'' ''11'' 257
        (options_registry [''csr-active-config'' \<mapsto> CFData [0x10, 0, 0, 0]]))) =
     Inr [None, Some ''1'', Some ''0'', Some ''0'', Some ''0'', Some ''0'', Some ''0'',
          Some ''0'', Some ''0'']"
proof -
  let ?io = "options_registry [''csr-active-config'' \<mapsto> CFData [0x10, 0, 0, 0]]"
  let ?h = "mac ''10'' ''11'' 257 ?io"
  let ?c = "\<lambda>mask :: csr_config_t. if 257 AND mask = mask then 0 else 1 :: int"
  have v: "(257 :: csr_config_t) OR valid_allowed_flags \<noteq> valid_allowed_flags"
    by (simp add: valid_allowed_flags_255)
  have nv: "genCsrConfigFromNvram ?io 0 =
      \<lparr>status = Status 0 ''ok'', config = 16, held = [], overrun = []\<rparr>"
    by (simp add: nvram_options CFDataGetBytes_def memcpy_uint32_def)
  have reg: "registry ?h = ?io" and g: "csr_get_active_config ?h = Some (\<lambda>old. 257)"
    and c: "csr_check ?h = Some ?c"
    by (simp_all add: mac_def)
  from genSIPConfig_unknown_bits [OF mac_gate_10_11 g c _ v]
  obtain rows where r: "genSIPConfig ?h = Inr rows" "length rows = 9"
      "hd rows ''config_flag'' = Some ''sip''" "hd rows ''enabled'' = None"
      "hd rows ''enabled_nvram'' = None"
      "column ''config_flag'' (tl rows) = map (\<lambda>kv. Some (fst kv)) kRootlessConfigFlags"
      "column ''enabled'' (tl rows) =
         map (\<lambda>kv. Some (if ?c (snd kv) = 0 then ''1'' else ''0'')) kRootlessConfigFlags"
      "column ''enabled_nvram'' (tl rows) =
         map (\<lambda>kv. if ok (status (genCsrConfigFromNvram (registry ?h) 0))
                    then Some (if config (genCsrConfigFromNvram (registry ?h) 0) AND snd kv \<noteq> 0
                               then ''1'' else ''0'')
                    else None) kRootlessConfigFlags"
    by auto
  from r(2) obtain x xs where xs: "rows = x # xs"
    by (cases rows) auto
  from r(6-8) xs have cols:
    "column ''config_flag'' xs = map (\<lambda>kv. Some (fst kv)) kRootlessConfigFlags"
    "column ''enabled'' xs =
       map (\<lambda>kv. Some (if ?c (snd kv) = 0 then ''1'' else ''0'')) kRootlessConfigFlags"
    "column ''enabled_nvram'' xs =
       map (\<lambda>kv. Some (if (16 :: uint32_t) AND snd kv \<noteq> 0 then ''1'' else ''0''))
         kRootlessConfigFlags"
    by (simp_all add: reg nv ok_def)
  from r(1,3-5) xs have hdr: "genSIPConfig ?h = Inr (x # xs)" "x ''config_flag'' = Some ''sip''"
      "x ''enabled'' = None" "x ''enabled_nvram'' = None"
    by simp_all
  have "column k (x # xs) = x k # column k xs" for k
    by (simp add: column_def)
  with v hdr cols show ?thesis
    by (simp add: kRootlessConfigFlags_sorted)
qed

section \<open>The persisted value\<close>

subsection \<open>The status of the reader\<close>

text \<open>
  C6, as stated: the reader returns a failing status exactly when the node cannot be
  opened, the properties cannot be fetched, the fetched dictionary is null or empty, or
  \<open>csr-active-config\<close> is present and not a byte buffer.  Line 71 compares
  \<open>properties\<close> with \<open>nullptr\<close> and nothing looks at the size of the dictionary: for a
  dictionary that was fetched and has no entry at all the property is absent, and the
  status is the success of line 91.
\<close>

theorem genCsrConfigFromNvram_empty_dictionary_counterexample:
  "IORegistryEntryFromPath (options_registry Map.empty) kIODeviceTreeChosenPath = 7 \<and>
   IORegistryEntryCreateCFProperties (options_registry Map.empty) 7 =
     (KERN_SUCCESS, Some Map.empty) \<and>
   status (genCsrConfigFromNvram (options_registry Map.empty) 0) =
     Status 0 ''csr-active-config key not found'' \<and>
   ok (status (genCsrConfigFromNvram (options_registry Map.empty) 0))"
proof -
  have "status (genCsrConfigFromNvram (options_registry Map.empty) 0) =
          Status 0 ''csr-active-config key not found''"
    by (simp add: nvram_options)
  then show ?thesis
    by (simp add: ok_def options_registry_def kIODeviceTreeChosenPath_def KERN_SUCCESS_def)
qed

text \<open>
  C6, amended: \<open>genCsrConfigFromNvram\<close> returns a failing status exactly when the
  registry node cannot be opened, the node's properties cannot be fetched, the fetched
  dictionary is null, or \<open>csr-active-config\<close> is present and not a \<open>CFData\<close>; in all
  other cases, the property a byte buffer or absent (also from a dictionary with no
  entries), it returns a success status.  Stated for the success status, of which the
  failing status is the negation: success exactly when the node opens, the fetch
  returns \<open>KERN_SUCCESS\<close>, the dictionary is not null, and the property is either
  absent or a \<open>CFData\<close>.
\<close>

theorem genCsrConfigFromNvram_status:
  "ok (status (genCsrConfigFromNvram io config0)) \<longleftrightarrow>
     (let chosen = IORegistryEntryFromPath io kIODeviceTreeChosenPath;
          (kr, properties) = IORegistryEntryCreateCFProperties io chosen
      in chosen \<noteq> MACH_PORT_NULL \<and> kr = KERN_SUCCESS \<and>
         (case properties of
            None \<Rightarrow> False
          | Some dict \<Rightarrow>
              (case dict ''csr-active-config'' of
                 None \<Rightarrow> True
               | Some csr_config \<Rightarrow> is_CFData csr_config)))"
  by (simp add: genCsrConfigFromNvram_def Let_def ok_def
      split: prod.splits option.splits CFType.splits)

subsection \<open>The rows when the property is absent or the read fails\<close>

text \<open>
  C2, as stated: with the gate passed, both symbols bound and the dictionary readable
  but without \<open>csr-active-config\<close>, no per-flag observation has an \<open>enabled_nvram\<close>
  field.  The reader answers an absent property with \<open>Status(0, ...)\<close>, the caller asks
  only \<open>nvram_status.ok()\<close>, and \<open>nvram_config\<close> is still the 0 it was initialised to:
  every per-flag row gets \<open>enabled_nvram = 0\<close>.
\<close>

theorem genSIPConfig_absent_property_counterexample:
  "version_gate (os_version
     (mac ''10'' ''11'' 0 (options_registry [''boot-args'' \<mapsto> CFString ''-v'']))) = Inr True \<and>
   map_sum id (column ''enabled_nvram'')
     (genSIPConfig (mac ''10'' ''11'' 0 (options_registry [''boot-args'' \<mapsto> CFString ''-v'']))) =
     Inr [Some ''1'', Some ''0'', Some ''0'', Some ''0'', Some ''0'', Some ''0'', Some ''0'',
          Some ''0'', Some ''0'']"
  by (simp add: genSIPConfig_mac [OF mac_gate_10_11] mac_gate_10_11 nvram_options ok_def column_def
      kRootlessConfigFlags_sorted flag_row_enabled_nvram sip_row_enabled_nvram INTEGER_0)

text \<open>
  C2, amended: with the gate passed, both symbols bound, the registry node opened and
  its dictionary fetched, and \<open>csr-active-config\<close> absent from the dictionary, nine
  observations are returned and each of the eight per-flag observations has
  \<open>enabled_nvram = 0\<close>.
\<close>

theorem genSIPConfig_absent_property:
  assumes "version_gate (os_version h) = Inr True"
    and "csr_get_active_config h = Some g" and "csr_check h = Some c"
    and "IORegistryEntryFromPath (registry h) kIODeviceTreeChosenPath = chosen"
    and "chosen \<noteq> MACH_PORT_NULL"
    and "IORegistryEntryCreateCFProperties (registry h) chosen = (KERN_SUCCESS, Some dict)"
    and "dict ''csr-active-config'' = None"
  shows "\<exists>rows. genSIPConfig h = Inr rows \<and> length rows = 9 \<and>
           column ''enabled_nvram'' (tl rows) =
             [Some ''0'', Some ''0'', Some ''0'', Some ''0'', Some ''0'', Some ''0'', Some ''0'',
              Some ''0'']"
proof -
  have nv: "genCsrConfigFromNvram (registry h) 0 =
      \<lparr>status = Status 0 ''csr-active-config key not found'', config = 0,
       held = [PropertyDictionary], overrun = []\<rparr>"
    using assms(4-7) by (simp add: genCsrConfigFromNvram_def acquire_def release_def)
  show ?thesis
    by (simp add: genSIPConfig_body [OF assms(1-3)] nv ok_def column_def
        kRootlessConfigFlags_sorted flag_row_enabled_nvram INTEGER_0)
qed

text \<open>A dictionary that holds \<open>boot-args\<close> and nothing else.\<close>

theorem genSIPConfig_absent_property_witness:
  "version_gate (os_version
     (mac ''10'' ''11'' 0 (options_registry [''boot-args'' \<mapsto> CFString ''-v'']))) = Inr True \<and>
   IORegistryEntryFromPath (options_registry [''boot-args'' \<mapsto> CFString ''-v''])
     kIODeviceTreeChosenPath \<noteq> MACH_PORT_NULL \<and>
   length (projr (genSIPConfig
     (mac ''10'' ''11'' 0 (options_registry [''boot-args'' \<mapsto> CFString ''-v''])))) = 9 \<and>
   column ''enabled_nvram'' (tl (projr (genSIPConfig
     (mac ''10'' ''11'' 0 (options_registry [''boot-args'' \<mapsto> CFString ''-v'']))))) =
     [Some ''0'', Some ''0'', Some ''0'', Some ''0'', Some ''0'', Some ''0'', Some ''0'', Some ''0'']"
proof -
  let ?io = "options_registry [''boot-args'' \<mapsto> CFString ''-v'']"
  let ?h = "mac ''10'' ''11'' 0 ?io"
  have node: "IORegistryEntryFromPath ?io kIODeviceTreeChosenPath \<noteq> MACH_PORT_NULL"
    by (simp add: options_registry_def kIODeviceTreeChosenPath_def MACH_PORT_NULL_def)
  have "\<exists>rows. genSIPConfig ?h = Inr rows \<and> length rows = 9 \<and>
          column ''enabled_nvram'' (tl rows) =
            [Some ''0'', Some ''0'', Some ''0'', Some ''0'', Some ''0'', Some ''0'', Some ''0'',
             Some ''0'']"
    by (rule genSIPConfig_absent_property [OF mac_gate_10_11, where chosen = 7
          and dict = "[''boot-args'' \<mapsto> CFString ''-v'']" and g = "\<lambda>old. 0"
          and c = "\<lambda>mask. if 0 AND mask = mask then 0 else 1"])
      (simp_all add: mac_def options_registry_def kIODeviceTreeChosenPath_def MACH_PORT_NULL_def
        KERN_SUCCESS_def)
  then show ?thesis
    using node mac_gate_10_11 [of 0 ?io] by auto
qed

text \<open>
  When the read fails, the eight per-flag rows are still pushed, and line 146 is skipped
  for each of them; but \<open>r\<close> is the row the aggregate was pushed from, so each per-flag
  row carries whatever \<open>enabled_nvram\<close> the aggregate row has.
\<close>

lemma genSIPConfig_failed_read:
  assumes "version_gate (os_version h) = Inr True"
    and "csr_get_active_config h = Some g" and "csr_check h = Some c"
    and "\<not> ok (status (genCsrConfigFromNvram (registry h) 0))"
  shows "\<exists>rows. genSIPConfig h = Inr rows \<and> length rows = 9 \<and>
           column ''enabled_nvram'' (tl rows) = replicate 8 (sip_row (g 0) ''enabled_nvram'')"
  using assms(4)
  by (simp add: genSIPConfig_body [OF assms(1-3)] column_def flag_row_enabled_nvram
      kRootlessConfigFlags_sorted numeral_eq_Suc)

text \<open>
  C3 says that after a failing read each of the eight per-flag observations has no
  \<open>enabled_nvram\<close> field.  On OS X 10.11 with an active configuration of 0 and a registry
  without the options node, the read fails and all nine rows have \<open>enabled_nvram = 1\<close>:
  the eight per-flag rows keep the field of the aggregate row.
\<close>

theorem genSIPConfig_stale_enabled_nvram:
  "\<not> ok (status (genCsrConfigFromNvram no_options_registry 0)) \<and>
   map_sum id (column ''enabled_nvram'') (genSIPConfig (mac ''10'' ''11'' 0 no_options_registry)) =
     Inr [Some ''1'', Some ''1'', Some ''1'', Some ''1'', Some ''1'', Some ''1'', Some ''1'',
          Some ''1'', Some ''1'']"
  by (simp add: genSIPConfig_mac [OF mac_gate_10_11] nvram_no_options ok_def column_def
      kRootlessConfigFlags_sorted flag_row_enabled_nvram sip_row_enabled_nvram)

subsection \<open>The bytes of the property\<close>

lemma memcpy_uint32_bytes:
  "memcpy_uint32 [b0, b1, b2, b3] =
     ucast b0 OR push_bit 8 (ucast b1) OR push_bit 16 (ucast b2) OR push_bit 24 (ucast b3)"
  by (simp add: memcpy_uint32_def push_bit_or push_bit_push_bit)

lemma CFDataGetBytes_in_bounds:
  assumes "length bytes \<le> 4"
  shows "CFDataGetBytes bytes (length bytes) [0, 0, 0, 0] =
           (bytes @ replicate (4 - length bytes) 0, [])"
proof -
  have "[0, 0, 0, 0 :: byte] = replicate 4 0"
    by (simp add: numeral_eq_Suc)
  then have "drop (length bytes) [0, 0, 0, 0 :: byte] = replicate (4 - length bytes) 0"
    by simp
  moreover have "length [0, 0, 0, 0 :: byte] = 4"
    by simp
  ultimately show ?thesis
    using assms unfolding CFDataGetBytes_def Let_def by simp
qed

text \<open>
  A property of at most four bytes is read inside \<open>buffer\<close>: the value is the bytes,
  padded with zeros to four, least significant byte first.
\<close>

lemma genCsrConfigFromNvram_in_bounds:
  assumes "IORegistryEntryFromPath io kIODeviceTreeChosenPath = chosen"
    and "chosen \<noteq> MACH_PORT_NULL"
    and "IORegistryEntryCreateCFProperties io chosen = (KERN_SUCCESS, Some dict)"
    and "dict ''csr-active-config'' = Some (CFData bytes)"
    and "length bytes \<le> 4"
  shows "overrun (genCsrConfigFromNvram io config0) = [] \<and>
         config (genCsrConfigFromNvram io config0) =
           memcpy_uint32 (bytes @ replicate (4 - length bytes) 0)"
  using assms by (simp add: genCsrConfigFromNvram_def CFDataGetBytes_in_bounds)

text \<open>Whatever its length, every byte of the property after the fourth is stored too.\<close>

lemma genCsrConfigFromNvram_overrun_eq:
  assumes "IORegistryEntryFromPath io kIODeviceTreeChosenPath = chosen"
    and "chosen \<noteq> MACH_PORT_NULL"
    and "IORegistryEntryCreateCFProperties io chosen = (KERN_SUCCESS, Some dict)"
    and "dict ''csr-active-config'' = Some (CFData bytes)"
  shows "overrun (genCsrConfigFromNvram io config0) = drop 4 bytes"
proof -
  have "snd (CFDataGetBytes bytes (length bytes) [0, 0, 0, 0]) = drop 4 bytes"
    unfolding CFDataGetBytes_def Let_def by (simp add: numeral_eq_Suc)
  then show ?thesis
    using assms by (simp add: genCsrConfigFromNvram_def case_prod_beta)
qed

text \<open>
  C7 says that at most four bytes of the property are copied.  The range handed to
  \<open>CFDataGetBytes\<close> is the whole length of the data, so for a property of five bytes the
  fifth is stored past the end of the four-byte \<open>buffer\<close>.
\<close>

theorem genCsrConfigFromNvram_overrun:
  "overrun (genCsrConfigFromNvram
      (options_registry [''csr-active-config'' \<mapsto> CFData [1, 2, 3, 4, 5]]) 0) = [5]"
  by (simp add: nvram_options CFDataGetBytes_def)

subsection \<open>The OS objects held at the return\<close>

text \<open>
  The registry entry is released on every path that opened it.  The dictionary is
  released on the path that read a byte buffer and on no other.
\<close>

lemma genCsrConfigFromNvram_held:
  "held (genCsrConfigFromNvram io config0) =
     (let chosen = IORegistryEntryFromPath io kIODeviceTreeChosenPath;
          (kr, properties) = IORegistryEntryCreateCFProperties io chosen
      in if chosen = MACH_PORT_NULL then []
         else case properties of
                None \<Rightarrow> []
              | Some dict \<Rightarrow>
                  if kr = KERN_SUCCESS \<and>
                     (case dict ''csr-active-config'' of None \<Rightarrow> False | Some v \<Rightarrow> is_CFData v)
                  then [] else [PropertyDictionary])"
  by (simp add: genCsrConfigFromNvram_def Let_def acquire_def release_def
      split: prod.splits option.splits CFType.splits)

text \<open>
  C8 says that every handle acquired has been released on every exit path.  On the
  return of line 91, for a dictionary without \<open>csr-active-config\<close>, the dictionary that
  \<open>IORegistryEntryCreateCFProperties\<close> created is still held.
\<close>

theorem genCsrConfigFromNvram_leak:
  "held (genCsrConfigFromNvram (options_registry [''boot-args'' \<mapsto> CFString ''-v'']) 0) =
     [PropertyDictionary]"
  by (simp add: nvram_options)

end
